theory Spec2Isabelle
  imports Complex_Main "HOL-Library.AList"
begin

section \<open>Python values\<close>

text \<open>
  The values that the sidecar stores in dictionaries and serialises as JSON.  A Python
  float is kept as the rational number that it is (the operations on floats are
  parameters of the model), Python ints are unbounded, and a \<open>dict\<close> is an association
  list in insertion order (assignment to an existing key keeps its position, a new key
  goes to the end: this is \<open>AList.update\<close>).
\<close>

datatype pyval =
    PNone
  | PBool bool
  | PInt int
  | PFloat rat
  | PStr string
  | PList "pyval list"
  | PDict "(string \<times> pyval) list"

type_synonym pydict = "(string \<times> pyval) list"

section \<open>The sidecar server (server/sidecar/main.py)\<close>

subsection \<open>Data\<close>

text \<open>
  A value of \<open>_runs\<close>: one of the dict literals
  \<open>{"status": "training", "metrics": {}}\<close>, \<open>{"status": "done", "metrics": metrics}\<close> and
  \<open>{"status": "failed", "error": str(e)}\<close>.  The key \<open>"status"\<close> is always there; the
  keys \<open>"metrics"\<close> and \<open>"error"\<close> are optional.
\<close>

record run_info =
  status :: string
  metrics :: "pydict option"
  error :: "string option"

record TrainRequest =
  dataset_path :: string
  base_model_path :: string
  output_dir :: string
  run_id :: "string option"
  epochs :: int
  learning_rate :: rat
  lora_rank :: int
  lora_alpha :: int
  batch_size :: int

datatype HTTPException = HTTPException (status_code: nat) (detail: string)

text \<open>The body \<open>{"run_id": run_id, "status": "training"}\<close> of a successful start.\<close>

record train_response =
  resp_run_id :: string
  resp_status :: string

text \<open>
  A raised Python exception, by what \<open>except Exception\<close> catches: an instance of
  \<open>Exception\<close>, or another \<open>BaseException\<close> (\<open>SystemExit\<close>, \<open>KeyboardInterrupt\<close>,
  \<open>GeneratorExit\<close>).  Both carry \<open>str(e)\<close>.
\<close>

datatype exn = Exception string | BaseException string

text \<open>
  How the call of \<open>run_training\<close> inside a worker thread ends: it raises (\<open>Inl\<close>) or it
  returns its metrics dict (\<open>Inr\<close>).
\<close>

type_synonym outcome = "exn + pydict"

text \<open>
  The module globals \<open>_current_run\<close> and \<open>_runs\<close>, together with the worker threads that
  have been started and have not finished yet; a thread is known by the \<open>run_id\<close> its
  closure captured.
\<close>

record sidecar =
  current_run :: "string option"
  runs :: "(string \<times> run_info) list"
  threads :: "string list"

definition init :: sidecar where
  "init = \<lparr>current_run = None, runs = [], threads = []\<rparr>"

subsection \<open>Operations\<close>

text \<open>Python's \<open>x or y\<close> for an optional string \<open>x\<close>: \<open>None\<close> and \<open>""\<close> are falsy.\<close>

definition str_or :: "string option \<Rightarrow> string \<Rightarrow> string" where
  "str_or x y = (case x of None \<Rightarrow> y | Some r \<Rightarrow> (if r = [] then y else r))"

text \<open>
  \<open>start_training\<close>.  The argument \<open>uuid4\<close> is the text of the fresh \<open>uuid.uuid4()\<close>, of
  which the first twelve characters are kept.  The whole check-and-set runs under
  \<open>_lock\<close>; the thread is started after it and the response is returned at once.
\<close>

definition start_training ::
  "string \<Rightarrow> TrainRequest \<Rightarrow> sidecar \<Rightarrow> (HTTPException + train_response) \<times> sidecar" where
  "start_training uuid4 req s =
     (case current_run s of
        Some cur \<Rightarrow>
          (Inl (HTTPException 409 (''Training already in progress: '' @ cur)), s)
      | None \<Rightarrow>
          (let rid = str_or (run_id req) (take 12 uuid4);
               s1 = s\<lparr>current_run := Some rid,
                       runs := AList.update rid
                         \<lparr>status = ''training'', metrics = Some [], error = None\<rparr> (runs s)\<rparr>;
               s2 = s1\<lparr>threads := threads s1 @ [rid]\<rparr>
           in (Inr \<lparr>resp_run_id = rid, resp_status = ''training''\<rparr>, s2)))"

text \<open>
  The closure \<open>_train\<close> of the thread that captured \<open>rid\<close>, given how \<open>run_training\<close>
  ended: the \<open>try\<close> body, the \<open>except Exception\<close> handler, and the \<open>finally\<close> block, which
  runs on each of the three paths.
\<close>

definition train_body :: "string \<Rightarrow> outcome \<Rightarrow> sidecar \<Rightarrow> sidecar" where
  "train_body rid out s =
     (case out of
        Inr m \<Rightarrow>
          s\<lparr>runs := AList.update rid \<lparr>status = ''done'', metrics = Some m, error = None\<rparr> (runs s)\<rparr>
      | Inl (Exception e) \<Rightarrow>
          s\<lparr>runs := AList.update rid \<lparr>status = ''failed'', metrics = None, error = Some e\<rparr> (runs s)\<rparr>
      | Inl (BaseException e) \<Rightarrow> s)"

definition train_finally :: "sidecar \<Rightarrow> sidecar" where
  "train_finally s = s\<lparr>current_run := None\<rparr>"

definition train :: "string \<Rightarrow> outcome \<Rightarrow> sidecar \<Rightarrow> sidecar" where
  "train rid out s = train_finally (train_body rid out s)"

text \<open>
  What comes out of the thread itself: only a \<open>BaseException\<close> that is no \<open>Exception\<close>
  leaves \<open>_train\<close>, and it ends the thread, never the request that started it.
\<close>

definition train_escapes :: "outcome \<Rightarrow> string option" where
  "train_escapes out = (case out of Inl (BaseException e) \<Rightarrow> Some e | _ \<Rightarrow> None)"


subsection \<open>Runs of the process\<close>

text \<open>
  What other threads do to the globals, one event at a time: a start request is handled
  (with the uuid that would be drawn), a status request is handled, or a started thread
  runs \<open>_train\<close> to its end.  A thread that was never started, or has already finished,
  does nothing.  \<open>get_status\<close> assigns to neither global, so a status request of another
  thread leaves them as they are.
\<close>

datatype event =
    Start string TrainRequest
  | Status string
  | ThreadExit string outcome

fun step :: "event \<Rightarrow> sidecar \<Rightarrow> sidecar" where
  "step (Start uuid4 req) s = snd (start_training uuid4 req s)"
| "step (Status rid) s = s"
| "step (ThreadExit rid out) s =
     (if rid \<in> set (threads s)
      then (train rid out s)\<lparr>threads := remove1 rid (threads s)\<rparr>
      else s)"

definition exec :: "event list \<Rightarrow> sidecar \<Rightarrow> sidecar" where
  "exec es s = fold step es s"

text \<open>The run ids under which the start requests of a trace were admitted.\<close>

fun admitted :: "event list \<Rightarrow> sidecar \<Rightarrow> string list" where
  "admitted [] s = []"
| "admitted (Start uuid4 req # es) s =
     (case fst (start_training uuid4 req s) of
        Inl e \<Rightarrow> admitted es (step (Start uuid4 req) s)
      | Inr r \<Rightarrow> resp_run_id r # admitted es (step (Start uuid4 req) s))"
| "admitted (e # es) s = admitted es (step e s)"

subsection \<open>The status query\<close>

text \<open>
  What leaves the handler: an \<open>HTTPException\<close> that it raises, or a \<open>RuntimeError\<close> of the
  dict iterator, which the handler does not catch.
\<close>

datatype failure = Http HTTPException | RuntimeError string

definition changed_size :: string where
  "changed_size = ''dictionary changed size during iteration''"

text \<open>
  The handler takes no lock, so other threads run while it does.  \<open>others\<close> lists, for
  each \<open>next()\<close> of the dict iterator in turn, the events of other threads that happen
  just before that call; when the list has run out nothing more happens.
\<close>

definition before_next :: "event list list \<Rightarrow> event list" where
  "before_next others = (case others of [] \<Rightarrow> [] | es # rest \<Rightarrow> es)"

text \<open>
  The loop \<open>for run_data in _runs.values(): pass\<close>, one \<open>next()\<close> at a time.  The iterator
  keeps the number \<open>used\<close> of keys that the dict had when the loop began, and every
  \<open>next()\<close> raises when the dict has another number of keys by then.  The second argument
  counts the values still to come: with none left, \<open>next()\<close> ends the loop.  The body
  \<open>pass\<close> does nothing.
\<close>

fun status_loop :: "nat \<Rightarrow> nat \<Rightarrow> event list list \<Rightarrow> sidecar \<Rightarrow> string option \<times> sidecar" where
  "status_loop used 0 others s =
     (let s' = exec (before_next others) s
      in (if length (runs s') \<noteq> used then Some changed_size else None, s'))"
| "status_loop used (Suc k) others s =
     (let s' = exec (before_next others) s
      in if length (runs s') \<noteq> used then (Some changed_size, s')
         else status_loop used k (tl others) s')"

text \<open>
  \<open>get_status\<close>: the reply, and the globals as the other threads have left them by the
  time it returns.  The record \<open>info\<close> is read before the loop and returned after it.
\<close>

definition get_status ::
  "string \<Rightarrow> event list list \<Rightarrow> sidecar \<Rightarrow> (failure + run_info) \<times> sidecar" where
  "get_status rid others s =
     (case map_of (runs s) rid of
        None \<Rightarrow> (Inl (Http (HTTPException 404 (''Run '' @ rid @ '' not found''))), s)
      | Some info \<Rightarrow>
          (if status info = ''training''
           then (case status_loop (length (runs s)) (length (runs s)) others s of
                   (Some msg, s') \<Rightarrow> (Inl (RuntimeError msg), s')
                 | (None, s') \<Rightarrow> (Inr info, s'))
           else (Inr info, s)))"

text \<open>
  What holds of the globals after every trace: the only live thread is the one of the
  active run, the record of the active run has status \<open>training\<close>, and a record with
  status \<open>training\<close> has the empty metrics it was created with and no error.
\<close>

definition sidecar_inv :: "sidecar \<Rightarrow> bool" where
  "sidecar_inv s \<longleftrightarrow>
     threads s = (case current_run s of None \<Rightarrow> [] | Some r \<Rightarrow> [r]) \<and>
     (\<forall>r. current_run s = Some r \<longrightarrow>
        (\<exists>i. map_of (runs s) r = Some i \<and> status i = ''training'')) \<and>
     (\<forall>rid i. map_of (runs s) rid = Some i \<longrightarrow> status i = ''training'' \<longrightarrow>
        metrics i = Some [] \<and> error i = None)"

text \<open>
  The status query as the specification words it, a plain registry lookup: the stored
  record or not-found, and the state as it was.
\<close>

definition registry_lookup :: "string \<Rightarrow> sidecar \<Rightarrow> (failure + run_info) \<times> sidecar" where
  "registry_lookup rid s =
     (case map_of (runs s) rid of
        None \<Rightarrow> (Inl (Http (HTTPException 404 (''Run '' @ rid @ '' not found''))), s)
      | Some info \<Rightarrow> (Inr info, s))"

text \<open>An event that admits a start request under the run id \<open>rid\<close>.\<close>

fun admits :: "event \<Rightarrow> sidecar \<Rightarrow> string \<Rightarrow> bool" where
  "admits (Start uuid4 req) s rid =
     (current_run s = None \<and> str_or (run_id req) (take 12 uuid4) = rid)"
| "admits e s rid = False"


definition terminal :: "run_info \<Rightarrow> bool" where
  "terminal i \<longleftrightarrow> status i = ''done'' \<or> status i = ''failed''"


section \<open>Training (gpu/sidecar/train.py)\<close>

subsection \<open>The dataset transform\<close>

text \<open>
  The errors that the training code can raise by itself: a missing dict key, a value of
  the wrong type under a subscript or a \<open>for\<close>, a line that is no JSON, a file that cannot
  be read or written, a division by zero, and a quotient outside the range of a float.
\<close>

datatype py_error =
    KeyError string
  | TypeError
  | JSONDecodeError
  | OSError string
  | ZeroDivisionError
  | OverflowError

text \<open>\<open>x[k]\<close> for a string key \<open>k\<close>: only a dict can be subscripted by a string.\<close>

fun getitem :: "pyval \<Rightarrow> string \<Rightarrow> py_error + pyval" where
  "getitem (PDict kvs) k = (case map_of kvs k of None \<Rightarrow> Inl (KeyError k) | Some v \<Rightarrow> Inr v)"
| "getitem v k = Inl TypeError"

text \<open>
  \<open>for x in v\<close>: a list gives its elements, a dict its keys, a string its characters
  (strings of length one); nothing else can be iterated.
\<close>

fun py_iter :: "pyval \<Rightarrow> py_error + pyval list" where
  "py_iter (PList xs) = Inr xs"
| "py_iter (PDict kvs) = Inr (map (\<lambda>kv. PStr (fst kv)) kvs)"
| "py_iter (PStr s) = Inr (map (\<lambda>c. PStr [c]) s)"
| "py_iter v = Inl TypeError"

text \<open>
  \<open>f"{content}"\<close>: a string is put in as it is; for any other value Python puts in
  \<open>str(content)\<close>, which is the parameter \<open>to_str\<close> here.
\<close>

definition fmt_content :: "(pyval \<Rightarrow> string) \<Rightarrow> pyval \<Rightarrow> string" where
  "fmt_content to_str v = (case v of PStr s \<Rightarrow> s | _ \<Rightarrow> to_str v)"

text \<open>
  One round of the inner loop: both subscripts are evaluated before the role is looked
  at, then the text grows by the segment of the role, or stays as it is.
\<close>

definition add_msg :: "(pyval \<Rightarrow> string) \<Rightarrow> pyval \<Rightarrow> string \<Rightarrow> py_error + string" where
  "add_msg to_str msg acc =
     (case getitem msg ''role'' of
        Inl e \<Rightarrow> Inl e
      | Inr role \<Rightarrow>
          (case getitem msg ''content'' of
             Inl e \<Rightarrow> Inl e
           | Inr content \<Rightarrow>
               Inr (if role = PStr ''system''
                      then acc @ ''<|system|>\<newline>'' @ fmt_content to_str content @ ''</s>\<newline>''
                    else if role = PStr ''user''
                      then acc @ ''<|user|>\<newline>'' @ fmt_content to_str content @ ''</s>\<newline>''
                    else if role = PStr ''assistant''
                      then acc @ ''<|assistant|>\<newline>'' @ fmt_content to_str content @ ''</s>\<newline>''
                    else acc)))"

fun add_msgs :: "(pyval \<Rightarrow> string) \<Rightarrow> pyval list \<Rightarrow> string \<Rightarrow> py_error + string" where
  "add_msgs to_str [] acc = Inr acc"
| "add_msgs to_str (msg # msgs) acc =
     (case add_msg to_str msg acc of Inl e \<Rightarrow> Inl e | Inr acc' \<Rightarrow> add_msgs to_str msgs acc')"

definition entry_text :: "(pyval \<Rightarrow> string) \<Rightarrow> pyval \<Rightarrow> py_error + string" where
  "entry_text to_str entry =
     (case getitem entry ''messages'' of
        Inl e \<Rightarrow> Inl e
      | Inr ms \<Rightarrow> (case py_iter ms of Inl e \<Rightarrow> Inl e | Inr msgs \<Rightarrow> add_msgs to_str msgs []))"

text \<open>
  The outer loop over the lines of the file.  The parameter \<open>decode\<close> is
  \<open>json.loads(line.strip())\<close> on a line (\<open>None\<close> when it raises).  A sample is the dict
  \<open>{"text": text}\<close>.
\<close>

fun load_lines ::
  "(string \<Rightarrow> pyval option) \<Rightarrow> (pyval \<Rightarrow> string) \<Rightarrow> string list \<Rightarrow> pydict list \<Rightarrow>
   py_error + pydict list" where
  "load_lines decode to_str [] samples = Inr samples"
| "load_lines decode to_str (line # rest) samples =
     (case decode line of
        None \<Rightarrow> Inl JSONDecodeError
      | Some entry \<Rightarrow>
          (case entry_text to_str entry of
             Inl e \<Rightarrow> Inl e
           | Inr acc \<Rightarrow> load_lines decode to_str rest (samples @ [[(''text'', PStr acc)]])))"

text \<open>
  \<open>load_dataset_from_jsonl\<close>: the parameter \<open>read_file\<close> gives the lines of a file, each
  with its line end, or the error of opening or reading it.  \<open>Dataset.from_list\<close> keeps
  the samples in their order.
\<close>

definition load_dataset_from_jsonl ::
  "(string \<Rightarrow> py_error + string list) \<Rightarrow> (string \<Rightarrow> pyval option) \<Rightarrow> (pyval \<Rightarrow> string) \<Rightarrow>
   string \<Rightarrow> py_error + pydict list" where
  "load_dataset_from_jsonl read_file decode to_str path =
     (case read_file path of
        Inl e \<Rightarrow> Inl e
      | Inr lines \<Rightarrow> load_lines decode to_str lines [])"

text \<open>The segment that a message adds to the text, when it has both keys.\<close>

definition segment :: "(pyval \<Rightarrow> string) \<Rightarrow> pyval \<Rightarrow> pyval \<Rightarrow> string" where
  "segment to_str role content =
     (if role = PStr ''system'' \<or> role = PStr ''user'' \<or> role = PStr ''assistant''
      then ''<|'' @ (case role of PStr r \<Rightarrow> r | _ \<Rightarrow> []) @ ''|>\<newline>''
             @ fmt_content to_str content @ ''</s>\<newline>''
      else [])"

text \<open>A message that is a dict with the keys \<open>role\<close> and \<open>content\<close>.\<close>

definition msg_parts :: "pyval \<Rightarrow> (pyval \<times> pyval) option" where
  "msg_parts msg =
     (case msg of
        PDict kvs \<Rightarrow>
          (case map_of kvs ''role'' of
             None \<Rightarrow> None
           | Some role \<Rightarrow>
               (case map_of kvs ''content'' of None \<Rightarrow> None | Some content \<Rightarrow> Some (role, content)))
      | _ \<Rightarrow> None)"

text \<open>The messages of a decoded line, when it is a dict whose \<open>messages\<close> is a list.\<close>

definition entry_msgs :: "pyval \<Rightarrow> pyval list option" where
  "entry_msgs entry =
     (case entry of
        PDict kvs \<Rightarrow> (case map_of kvs ''messages'' of Some (PList msgs) \<Rightarrow> Some msgs | _ \<Rightarrow> None)
      | _ \<Rightarrow> None)"

text \<open>
  A line of the expected shape: it decodes, its \<open>messages\<close> is a list, and every message
  has both keys.
\<close>

definition well_formed_line :: "(string \<Rightarrow> pyval option) \<Rightarrow> string \<Rightarrow> bool" where
  "well_formed_line decode line =
     (case decode line of
        None \<Rightarrow> False
      | Some entry \<Rightarrow>
          (case entry_msgs entry of
             None \<Rightarrow> False
           | Some msgs \<Rightarrow> list_all (\<lambda>m. msg_parts m \<noteq> None) msgs))"

text \<open>The text that the specification gives for a line of the expected shape.\<close>

definition line_text :: "(string \<Rightarrow> pyval option) \<Rightarrow> (pyval \<Rightarrow> string) \<Rightarrow> string \<Rightarrow> string" where
  "line_text decode to_str line =
     concat (map (\<lambda>m. case msg_parts m of None \<Rightarrow> [] | Some (role, content) \<Rightarrow> segment to_str role content)
       (case decode line of
          None \<Rightarrow> []
        | Some entry \<Rightarrow> (case entry_msgs entry of None \<Rightarrow> [] | Some msgs \<Rightarrow> msgs)))"

subsection \<open>The progress reporter\<close>

type_synonym files = "string \<rightharpoonup> pyval"

text \<open>
  The two fields of the trainer's state that \<open>on_log\<close> reads, both Python ints, and the
  callback object.  A file holds the value that \<open>json.dump\<close> wrote to it last.
\<close>

record TrainerState =
  global_step :: int
  max_steps :: int

record MetricsCallback =
  metrics_path :: string
  status_path :: string
  start_time :: rat

text \<open>
  What the code takes from Python and the operating system.  A float is kept as the
  rational number that it is.  \<open>fdiv a b\<close> is the float that \<open>a / b\<close> gives for ints with
  \<open>b\<close> not zero, \<open>None\<close> when the quotient is outside the range of a float; \<open>fsub\<close> is
  the subtraction of floats; \<open>fround4\<close> is \<open>round(x, 4)\<close> on a float; \<open>ffmt1\<close> is
  \<open>format(x, ".1f")\<close>; \<open>can_write\<close> tells whether \<open>open(path, "w")\<close> succeeds.
\<close>

record platform =
  fdiv :: "int \<Rightarrow> int \<Rightarrow> rat option"
  fsub :: "rat \<Rightarrow> rat \<Rightarrow> rat"
  fround4 :: "rat \<Rightarrow> rat"
  ffmt1 :: "rat \<Rightarrow> string"
  can_write :: "string \<Rightarrow> bool"

text \<open>\<open>a / b\<close> on ints: true division, which raises on a zero divisor.\<close>

definition truediv :: "platform \<Rightarrow> int \<Rightarrow> int \<Rightarrow> py_error + rat" where
  "truediv py a b =
     (if b = 0 then Inl ZeroDivisionError
      else (case fdiv py a b of None \<Rightarrow> Inl OverflowError | Some q \<Rightarrow> Inr q))"

text \<open>
  \<open>state.global_step / state.max_steps if state.max_steps > 0 else 0\<close>: a float from
  the division, the int \<open>0\<close> from the other branch.
\<close>

definition progress_of :: "platform \<Rightarrow> TrainerState \<Rightarrow> py_error + pyval" where
  "progress_of py st =
     (if 0 < max_steps st
      then (case truediv py (global_step st) (max_steps st) of
              Inl e \<Rightarrow> Inl e
            | Inr q \<Rightarrow> Inr (PFloat q))
      else Inr (PInt 0))"

text \<open>\<open>round(x, 4)\<close>: a float is rounded, an int is returned as it is.\<close>

definition round4 :: "platform \<Rightarrow> pyval \<Rightarrow> pyval" where
  "round4 py v = (case v of PFloat x \<Rightarrow> PFloat (fround4 py x) | _ \<Rightarrow> v)"

text \<open>\<open>d.get(k, default)\<close>.\<close>

definition dict_get :: "pydict \<Rightarrow> string \<Rightarrow> pyval \<Rightarrow> pyval" where
  "dict_get d k dflt = (case map_of d k of None \<Rightarrow> dflt | Some v \<Rightarrow> v)"

text \<open>
  \<open>with open(path, "w") as f: json.dump(v, f)\<close>: the file is replaced, or \<open>open\<close>
  raises.  The values written here are numbers, strings and dicts of them, which
  \<open>json.dump\<close> takes.
\<close>

definition write_json :: "platform \<Rightarrow> string \<Rightarrow> pyval \<Rightarrow> files \<Rightarrow> py_error + files" where
  "write_json py path v fs = (if can_write py path then Inr (fs(path \<mapsto> v)) else Inl (OSError path))"

text \<open>\<open>on_log\<close>, at clock reading \<open>now\<close>.  With \<open>logs\<close> absent nothing is written.\<close>

definition on_log ::
  "platform \<Rightarrow> MetricsCallback \<Rightarrow> rat \<Rightarrow> TrainerState \<Rightarrow> pydict option \<Rightarrow> files \<Rightarrow>
   py_error + files" where
  "on_log py self now st logs fs =
     (case logs of
        None \<Rightarrow> Inr fs
      | Some lg \<Rightarrow>
          (let elapsed = fsub py now (start_time self)
           in case progress_of py st of
                Inl e \<Rightarrow> Inl e
              | Inr progress \<Rightarrow>
                  write_json py (metrics_path self) (PDict
                    [(''train_loss'', dict_get lg ''loss'' (PInt 0)),
                     (''eval_loss'', dict_get lg ''eval_loss'' (PInt 0)),
                     (''duration'', PStr (ffmt1 py elapsed @ ''s'')),
                     (''progress'', round4 py progress),
                     (''step'', PInt (global_step st)),
                     (''max_steps'', PInt (max_steps st))]) fs))"

definition write_status :: "platform \<Rightarrow> MetricsCallback \<Rightarrow> string \<Rightarrow> files \<Rightarrow> py_error + files" where
  "write_status py self st fs = write_json py (status_path self) (PDict [(''status'', PStr st)]) fs"

definition on_train_end :: "platform \<Rightarrow> MetricsCallback \<Rightarrow> files \<Rightarrow> py_error + files" where
  "on_train_end py self fs = write_status py self ''done'' fs"

text \<open>The number that a stored progress stands for, and the progress in a metrics file.\<close>

definition num_of :: "pyval \<Rightarrow> rat" where
  "num_of v = (case v of PInt n \<Rightarrow> of_int n | PFloat x \<Rightarrow> x | _ \<Rightarrow> 0)"

definition read_progress :: "files \<Rightarrow> string \<Rightarrow> pyval option" where
  "read_progress fs path =
     (case fs path of Some (PDict d) \<Rightarrow> map_of d ''progress'' | _ \<Rightarrow> None)"

definition read_status :: "files \<Rightarrow> string \<Rightarrow> pyval option" where
  "read_status fs path =
     (case fs path of Some (PDict d) \<Rightarrow> map_of d ''status'' | _ \<Rightarrow> None)"

text \<open>
  A progress event is one call of \<open>on_log\<close>: the clock, the trainer's state and the
  logs.  \<open>progress_log\<close> runs the calls in their order, up to the first one that raises,
  and collects the progress that each one that writes leaves in the metrics file.
\<close>

type_synonym log_event = "rat \<times> TrainerState \<times> pydict option"

fun progress_log :: "platform \<Rightarrow> MetricsCallback \<Rightarrow> log_event list \<Rightarrow> files \<Rightarrow> rat list" where
  "progress_log py self [] fs = []"
| "progress_log py self ((now, st, logs) # evs) fs =
     (case on_log py self now st logs fs of
        Inl e \<Rightarrow> []
      | Inr fs' \<Rightarrow>
          (case logs of
             None \<Rightarrow> []
           | Some lg \<Rightarrow>
               (case read_progress fs' (metrics_path self) of None \<Rightarrow> [] | Some p \<Rightarrow> [num_of p]))
          @ progress_log py self evs fs')"

text \<open>
  The calls as the trainer makes them: the first one that raises ends the training, and
  the files stay as the calls before it left them.
\<close>

fun run_callbacks ::
  "platform \<Rightarrow> MetricsCallback \<Rightarrow> log_event list \<Rightarrow> files \<Rightarrow> py_error option \<times> files" where
  "run_callbacks py self [] fs = (None, fs)"
| "run_callbacks py self ((now, st, logs) # evs) fs =
     (case on_log py self now st logs fs of
        Inl e \<Rightarrow> (Some e, fs)
      | Inr fs' \<Rightarrow> run_callbacks py self evs fs')"

text \<open>
  The progress that a call of \<open>on_log\<close> with logs stores for a state of the trainer, as a
  number; \<open>None\<close> when the division raises.
\<close>

definition stored_progress :: "platform \<Rightarrow> TrainerState \<Rightarrow> rat option" where
  "stored_progress py st =
     (if 0 < max_steps st
      then (case fdiv py (global_step st) (max_steps st) of
              None \<Rightarrow> None
            | Some q \<Rightarrow> Some (fround4 py q))
      else Some 0)"

text \<open>
  Floats as they are in Python: of two quotients by the same positive divisor the one of
  the larger dividend is not smaller, and \<open>round(x, 4)\<close> keeps the order.
\<close>

definition monotone_floats :: "platform \<Rightarrow> bool" where
  "monotone_floats py \<longleftrightarrow>
     (\<forall>a b n x y. 0 < n \<and> a \<le> b \<and> fdiv py a n = Some x \<and> fdiv py b n = Some y \<longrightarrow> x \<le> y) \<and>
     (\<forall>x y. x \<le> y \<longrightarrow> fround4 py x \<le> fround4 py y)"

subsection \<open>\<open>run_training\<close>\<close>

text \<open>
  \<open>os.makedirs(d, exist_ok=True)\<close>: \<open>None\<close> when it succeeds, the text of its error when
  it raises.  For the empty path it raises \<open>FileNotFoundError\<close>; for any other path the
  parameter \<open>mk\<close> tells.
\<close>

definition no_such_dir :: string where
  "no_such_dir = ''[Errno 2] No such file or directory: '' @ [CHR 0x27, CHR 0x27]"

definition py_makedirs :: "(string \<Rightarrow> string option) \<Rightarrow> string \<Rightarrow> string option" where
  "py_makedirs mk d = (if d = [] then Some no_such_dir else mk d)"

text \<open>
  The collaborators of \<open>run_training\<close>, taken as they are seen from it: whether a directory
  can be made, whether each call into the training library raises (loading the model,
  applying the adapter, building the \<open>TrainingArguments\<close> and the \<open>SFTTrainer\<close>, and
  saving model and tokenizer), the progress events that \<open>trainer.train()\<close> sends before
  it returns the training loss or raises, the file reader and JSON decoder of the dataset
  transform, the clock readings, Python's \<open>str\<close> of a value and of an error, and the
  platform.
\<close>

record collaborators =
  mkdir :: "string \<Rightarrow> string option"
  from_pretrained :: "exn option"
  get_peft_model :: "exn option"
  read_file :: "string \<Rightarrow> py_error + string list"
  decode :: "string \<Rightarrow> pyval option"
  to_str :: "pyval \<Rightarrow> string"
  str_error :: "py_error \<Rightarrow> string"
  training_start :: rat
  callback_start :: rat
  training_arguments :: "exn option"
  sft_trainer :: "exn option"
  log_events :: "log_event list"
  train_result :: "exn + rat"
  save_pretrained :: "exn option"
  training_end :: rat
  python :: platform

text \<open>\<open>os.path.join(a, b)\<close> for a relative \<open>b\<close>.\<close>

definition path_join :: "string \<Rightarrow> string \<Rightarrow> string" where
  "path_join a b = (if a = [] \<or> last a = CHR ''/'' then a @ b else a @ ''/'' @ b)"

text \<open>
  \<open>run_training\<close>: the result and the files it leaves.  The hyperparameters only travel
  on to the training library, so they do not appear.  \<open>trainer.train()\<close> makes the
  \<open>on_log\<close> calls and, when the training has come to its end, the \<open>on_train_end\<close> call;
  an error of a callback leaves \<open>train()\<close> as it is.
\<close>

definition run_training ::
  "collaborators \<Rightarrow> string \<Rightarrow> string \<Rightarrow> string \<Rightarrow> files \<Rightarrow> outcome \<times> files" where
  "run_training c dataset base_model out_dir fs =
     (case py_makedirs (mkdir c) out_dir of
        Some msg \<Rightarrow> (Inl (Exception msg), fs)
      | None \<Rightarrow>
     (let mpath = path_join out_dir ''metrics.json'';
          spath = path_join out_dir ''status.json''
      in case write_json (python c) spath (PDict [(''status'', PStr ''training'')]) fs of
           Inl e \<Rightarrow> (Inl (Exception (str_error c e)), fs)
         | Inr fs1 \<Rightarrow>
      (case from_pretrained c of
           Some e \<Rightarrow> (Inl e, fs1)
         | None \<Rightarrow>
      (case get_peft_model c of
           Some e \<Rightarrow> (Inl e, fs1)
         | None \<Rightarrow>
      (case load_dataset_from_jsonl (read_file c) (decode c) (to_str c) dataset of
           Inl e \<Rightarrow> (Inl (Exception (str_error c e)), fs1)
         | Inr samples \<Rightarrow>
      (case training_arguments c of
           Some e \<Rightarrow> (Inl e, fs1)
         | None \<Rightarrow>
      (let callback = \<lparr>metrics_path = mpath, status_path = spath, start_time = callback_start c\<rparr>
       in case sft_trainer c of
           Some e \<Rightarrow> (Inl e, fs1)
         | None \<Rightarrow>
      (case run_callbacks (python c) callback (log_events c) fs1 of
           (Some e, fs2) \<Rightarrow> (Inl (Exception (str_error c e)), fs2)
         | (None, fs2) \<Rightarrow>
      (case train_result c of
           Inl e \<Rightarrow> (Inl e, fs2)
         | Inr loss \<Rightarrow>
      (case on_train_end (python c) callback fs2 of
           Inl e \<Rightarrow> (Inl (Exception (str_error c e)), fs2)
         | Inr fs3 \<Rightarrow>
      (case save_pretrained c of
           Some e \<Rightarrow> (Inl e, fs3)
         | None \<Rightarrow>
      (let elapsed = fsub (python c) (training_end c) (training_start c);
           m = [(''train_loss'', PFloat loss),
                (''duration'', PStr (ffmt1 (python c) elapsed @ ''s'')),
                (''samples_used'', PInt (int (length samples))),
                (''progress'', PFloat 1)]
       in case write_json (python c) mpath (PDict m) fs3 of
            Inl e \<Rightarrow> (Inl (Exception (str_error c e)), fs3)
          | Inr fs4 \<Rightarrow>
       (case write_json (python c) spath (PDict [(''status'', PStr ''done'')]) fs4 of
            Inl e \<Rightarrow> (Inl (Exception (str_error c e)), fs4)
          | Inr fs5 \<Rightarrow> (Inr m, fs5))))))))))))))"


section \<open>Conversion (\<open>convert_to_gguf\<close> of server/sidecar/main.py)\<close>













section \<open>Example inputs\<close>

definition example_uuid :: string where
  "example_uuid = ''0f8fad5b-d9cb-469f-a165-70867728950e''"

definition example_request :: "string option \<Rightarrow> TrainRequest" where
  "example_request rid =
     \<lparr>dataset_path = ''data/train.jsonl'', base_model_path = ''models/base'',
      output_dir = ''out'', run_id = rid, epochs = 3, learning_rate = 1 / 5000,
      lora_rank = 16, lora_alpha = 32, batch_size = 4\<rparr>"

definition training_record :: run_info where
  "training_record = \<lparr>status = ''training'', metrics = Some [], error = None\<rparr>"

definition example_metrics :: pydict where
  "example_metrics =
     [(''train_loss'', PFloat (21 / 50)), (''duration'', PStr ''12.5s''),
      (''samples_used'', PInt 8), (''progress'', PFloat 1)]"

definition done_record :: run_info where
  "done_record = \<lparr>status = ''done'', metrics = Some example_metrics, error = None\<rparr>"

definition example_trace :: "event list" where
  "example_trace =
     [Start example_uuid (example_request (Some ''abc123'')),
      ThreadExit ''abc123'' (Inr example_metrics)]"

definition example_callback :: MetricsCallback where
  "example_callback =
     \<lparr>metrics_path = ''out/metrics.json'', status_path = ''out/status.json'', start_time = 100\<rparr>"

text \<open>
  The platform of the examples: every file can be written, a quotient is the exact one
  (standing for the float next to it), rounding changes nothing (the examples round
  values of at most four decimal places), and a duration prints as \<open>5.0\<close> (the examples
  take five seconds).
\<close>

definition exact_platform :: platform where
  "exact_platform =
     \<lparr>fdiv = (\<lambda>a b. Some (of_int a / of_int b)), fsub = (\<lambda>x y. x - y), fround4 = (\<lambda>x. x),
      ffmt1 = (\<lambda>x. ''5.0''), can_write = (\<lambda>p. True)\<rparr>"

text \<open>
  Two runs of progress events; quotients by 8 and by 16 are floats exactly.  In the first
  \<open>max_steps\<close> changes between the events, in the second it does not.
\<close>

definition example_events :: "log_event list" where
  "example_events =
     [(101, \<lparr>global_step = 4, max_steps = 8\<rparr>, Some [(''loss'', PFloat (3 / 4))]),
      (102, \<lparr>global_step = 4, max_steps = 16\<rparr>, Some [(''loss'', PFloat (1 / 2))])]"

definition steady_events :: "log_event list" where
  "steady_events =
     [(101, \<lparr>global_step = 1, max_steps = 8\<rparr>, Some [(''loss'', PFloat (3 / 4))]),
      (102, \<lparr>global_step = 2, max_steps = 8\<rparr>, None),
      (103, \<lparr>global_step = 3, max_steps = 8\<rparr>, Some [(''loss'', PFloat (1 / 2))])]"

text \<open>
  A training that goes well, on an empty dataset file, and the same training with a
  failure when the adapter is saved.
\<close>

definition example_collaborators :: collaborators where
  "example_collaborators =
     \<lparr>mkdir = (\<lambda>d. None), from_pretrained = None, get_peft_model = None,
      read_file = (\<lambda>p. Inr []), decode = (\<lambda>l. None), to_str = (\<lambda>v. []),
      str_error = (\<lambda>e. []), training_start = 100, callback_start = 100,
      training_arguments = None, sft_trainer = None, log_events = steady_events,
      train_result = Inr (21 / 50), save_pretrained = None, training_end = 105,
      python = exact_platform\<rparr>"

definition failing_save :: collaborators where
  "failing_save = example_collaborators\<lparr>save_pretrained := Some (Exception ''disk full'')\<rparr>"

definition final_metrics :: pydict where
  "final_metrics =
     [(''train_loss'', PFloat (21 / 50)), (''duration'', PStr ''5.0s''),
      (''samples_used'', PInt 0), (''progress'', PFloat 1)]"







text \<open>A JSON string literal: the text between double quotes.\<close>

definition quoted :: "string \<Rightarrow> string" where
  "quoted s = [CHR 0x22] @ s @ [CHR 0x22]"

text \<open>
  Three lines of a dataset file, each with its line end, and what
  \<open>json.loads(line.strip())\<close> gives for them: a system and a user message; a single
  message with role \<open>tool\<close> and a content; a single message with role \<open>tool\<close> and no
  content.
\<close>

definition line_chat :: string where
  "line_chat =
     ''{'' @ quoted ''messages'' @ '': [{'' @ quoted ''role'' @ '': '' @ quoted ''system'' @ '', ''
       @ quoted ''content'' @ '': '' @ quoted ''Be brief.'' @ ''}, {'' @ quoted ''role'' @ '': ''
       @ quoted ''user'' @ '', '' @ quoted ''content'' @ '': '' @ quoted ''Hi'' @ ''}]}\<newline>''"

definition line_tool :: string where
  "line_tool =
     ''{'' @ quoted ''messages'' @ '': [{'' @ quoted ''role'' @ '': '' @ quoted ''tool'' @ '', ''
       @ quoted ''content'' @ '': '' @ quoted ''42'' @ ''}]}\<newline>''"

definition line_bare :: string where
  "line_bare =
     ''{'' @ quoted ''messages'' @ '': [{'' @ quoted ''role'' @ '': '' @ quoted ''tool'' @ ''}]}\<newline>''"

definition example_decode :: "string \<Rightarrow> pyval option" where
  "example_decode l =
     (if l = line_chat then
        Some (PDict [(''messages'', PList
          [PDict [(''role'', PStr ''system''), (''content'', PStr ''Be brief.'')],
           PDict [(''role'', PStr ''user''), (''content'', PStr ''Hi'')]])])
      else if l = line_tool then
        Some (PDict [(''messages'', PList
          [PDict [(''role'', PStr ''tool''), (''content'', PStr ''42'')]])])
      else if l = line_bare then
        Some (PDict [(''messages'', PList [PDict [(''role'', PStr ''tool'')]])])
      else None)"

definition example_to_str :: "pyval \<Rightarrow> string" where
  "example_to_str v = ''?''"


section \<open>Properties of the server\<close>

subsection \<open>The invariant\<close>

lemma inv_init: "sidecar_inv init"
  by (simp add: sidecar_inv_def init_def)

lemma inv_start: "sidecar_inv s \<Longrightarrow> sidecar_inv (snd (start_training u req s))"
  by (auto simp: sidecar_inv_def start_training_def Let_def update_conv' split: option.splits)

lemma inv_thread_exit:
  assumes "sidecar_inv s"
  shows "sidecar_inv (step (ThreadExit rid out) s)"
proof (cases out)
  case (Inl x)
  then show ?thesis using assms
    by (cases x)
       (auto simp: sidecar_inv_def train_def train_body_def train_finally_def update_conv'
             split: option.splits if_splits)
next
  case (Inr m)
  then show ?thesis using assms
    by (auto simp: sidecar_inv_def train_def train_body_def train_finally_def update_conv'
             split: option.splits if_splits)
qed

lemma inv_step: "sidecar_inv s \<Longrightarrow> sidecar_inv (step e s)"
  by (cases e) (simp_all add: inv_start inv_thread_exit del: step.simps(3))

lemma inv_exec: "sidecar_inv s \<Longrightarrow> sidecar_inv (exec es s)"
  unfolding exec_def by (induction es arbitrary: s) (simp_all add: inv_step)

lemma exec_append: "exec (es @ fs) s = exec fs (exec es s)"
  by (simp add: exec_def)

lemma thread_is_current:
  "sidecar_inv s \<Longrightarrow> rid \<in> set (threads s) \<Longrightarrow>
   current_run s = Some rid \<and> (\<exists>i. map_of (runs s) rid = Some i \<and> status i = ''training'')"
  by (auto simp: sidecar_inv_def split: option.splits)

lemma runs_train:
  "runs (train rid out s) =
     (case out of
        Inr m \<Rightarrow> AList.update rid \<lparr>status = ''done'', metrics = Some m, error = None\<rparr> (runs s)
      | Inl (Exception e) \<Rightarrow>
          AList.update rid \<lparr>status = ''failed'', metrics = None, error = Some e\<rparr> (runs s)
      | Inl (BaseException e) \<Rightarrow> runs s)"
  by (simp add: train_def train_body_def train_finally_def split: sum.splits exn.splits)

lemma runs_start:
  "runs (snd (start_training u req s)) =
     (case current_run s of
        Some cur \<Rightarrow> runs s
      | None \<Rightarrow> AList.update (str_or (run_id req) (take 12 u))
          \<lparr>status = ''training'', metrics = Some [], error = None\<rparr> (runs s))"
  by (simp add: start_training_def Let_def split: option.splits)

lemma keys_update_known:
  "map_of al k = Some v \<Longrightarrow> map fst (AList.update k w al) = map fst al"
proof -
  assume "map_of al k = Some v"
  then have "k \<in> set (map fst al)" using map_of_SomeD by force
  then show ?thesis by (simp add: update_keys)
qed

lemma keys_thread_exit:
  assumes "sidecar_inv s"
  shows "map fst (runs (step (ThreadExit rid out) s)) = map fst (runs s)"
proof (cases "rid \<in> set (threads s)")
  case False
  then show ?thesis by simp
next
  case True
  then obtain i where i: "map_of (runs s) rid = Some i"
    using thread_is_current[OF assms] by blast
  show ?thesis using True keys_update_known[OF i]
    by (simp add: runs_train split: sum.splits exn.splits)
qed

lemma keys_start:
  "fst ` set (runs (snd (start_training u req s))) =
     fst ` set (runs s) \<union>
       (case fst (start_training u req s) of Inl e \<Rightarrow> {} | Inr r \<Rightarrow> {resp_run_id r})"
  by (auto simp: start_training_def Let_def dom_update split: option.splits)

lemma keys_exec:
  "sidecar_inv s \<Longrightarrow> fst ` set (runs (exec es s)) = fst ` set (runs s) \<union> set (admitted es s)"
proof (induction es arbitrary: s)
  case Nil
  then show ?case by (simp add: exec_def)
next
  case (Cons e es)
  have i: "sidecar_inv (step e s)" using Cons.prems by (rule inv_step)
  have ex: "exec (e # es) s = exec es (step e s)" by (simp add: exec_def)
  show ?case
  proof (cases e)
    case (Start u req)
    then show ?thesis using Cons.IH[OF i] keys_start[of u req s] ex
      by (auto split: sum.splits)
  next
    case (Status rid)
    then show ?thesis using Cons.IH[OF i] ex by simp
  next
    case (ThreadExit rid out)
    have "set (map fst (runs (step e s))) = set (map fst (runs s))"
      using keys_thread_exit[OF Cons.prems, of rid out] ThreadExit by simp
    then have "fst ` set (runs (step e s)) = fst ` set (runs s)" by simp
    then show ?thesis using Cons.IH[OF i] ex ThreadExit by simp
  qed
qed

subsection \<open>The loop of the status query\<close>

lemma status_loop_alone:
  "length (runs s) = used \<Longrightarrow> status_loop used k [] s = (None, s)"
  by (induction k) (simp_all add: before_next_def exec_def)

lemma get_status_alone: "get_status rid [] s = registry_lookup rid s"
  by (simp add: get_status_def registry_lookup_def status_loop_alone split: option.splits)

lemma status_loop_state:
  "\<exists>j. snd (status_loop used k others s) = exec (concat (take j others)) s"
proof (induction k arbitrary: others s)
  case 0
  show ?case
  proof (cases others)
    case Nil
    then show ?thesis by (simp add: before_next_def exec_def)
  next
    case (Cons es rest)
    have "snd (status_loop used 0 others s) = exec (concat (take 1 others)) s"
      using Cons by (simp add: before_next_def Let_def)
    then show ?thesis by blast
  qed
next
  case (Suc k)
  show ?case
  proof (cases others)
    case Nil
    then show ?thesis using Suc[of "[]" s]
      by (simp add: before_next_def exec_def Let_def)
  next
    case (Cons es rest)
    show ?thesis
    proof (cases "length (runs (exec es s)) \<noteq> used")
      case True
      then have "snd (status_loop used (Suc k) others s) = exec (concat (take 1 others)) s"
        using Cons by (simp add: before_next_def Let_def)
      then show ?thesis by blast
    next
      case False
      obtain j where j: "snd (status_loop used k rest (exec es s)) =
          exec (concat (take j rest)) (exec es s)"
        using Suc[of rest "exec es s"] by blast
      have "snd (status_loop used (Suc k) others s) = exec (concat (take (Suc j) others)) s"
        using Cons False j by (simp add: before_next_def Let_def exec_append)
      then show ?thesis by blast
    qed
  qed
qed

lemma get_status_state:
  "\<exists>j. snd (get_status rid others s) = exec (concat (take j others)) s"
proof (cases "map_of (runs s) rid")
  case None
  then have "snd (get_status rid others s) = exec (concat (take 0 others)) s"
    by (simp add: get_status_def exec_def)
  then show ?thesis by blast
next
  case (Some info)
  show ?thesis
  proof (cases "status info = ''training''")
    case False
    then have "snd (get_status rid others s) = exec (concat (take 0 others)) s"
      using Some by (simp add: get_status_def exec_def)
    then show ?thesis by blast
  next
    case True
    obtain j where j: "snd (status_loop (length (runs s)) (length (runs s)) others s) =
        exec (concat (take j others)) s"
      using status_loop_state by blast
    have "snd (get_status rid others s) =
        snd (status_loop (length (runs s)) (length (runs s)) others s)"
      using Some True by (simp add: get_status_def split: prod.splits option.splits)
    then show ?thesis using j by auto
  qed
qed




lemma example_start:
  "start_training example_uuid (example_request (Some ''abc123'')) init =
     (Inr \<lparr>resp_run_id = ''abc123'', resp_status = ''training''\<rparr>,
      \<lparr>current_run = Some ''abc123'', runs = [(''abc123'', training_record)],
       threads = [''abc123'']\<rparr>)"
  by (simp add: start_training_def init_def example_request_def str_or_def training_record_def
        Let_def)

lemma example_done:
  "exec example_trace init = \<lparr>current_run = None, runs = [(''abc123'', done_record)], threads = []\<rparr>"
  by (simp add: example_trace_def exec_def example_start train_def train_body_def
        train_finally_def done_record_def)

subsection \<open>Unknown runs\<close>

text \<open>
  Claim C6.  After any trace of the process, a status query for a run id under which no
  start request of the trace was admitted returns the not-found error with status 404
  whose detail names that run id, whatever other threads do meanwhile, and leaves the
  state as it was.  The query is a total function, so it always returns.
\<close>

theorem unknown_run_not_found:
  "rid \<notin> set (admitted es init) \<Longrightarrow>
   get_status rid others (exec es init) =
     (Inl (Http (HTTPException 404 (''Run '' @ rid @ '' not found''))), exec es init)"
proof -
  assume a: "rid \<notin> set (admitted es init)"
  have "fst ` set (runs (exec es init)) = set (admitted es init)"
    using keys_exec[OF inv_init, of es] by (simp add: init_def)
  then have "rid \<notin> fst ` set (runs (exec es init))" using a by simp
  then have "map_of (runs (exec es init)) rid = None" by (simp add: map_of_eq_None_iff)
  then show ?thesis by (simp add: get_status_def)
qed

theorem unknown_run_not_found_witness:
  "get_status ''zzz'' [] (exec [Start example_uuid (example_request (Some ''abc123''))] init) =
     (Inl (Http (HTTPException 404 ''Run zzz not found'')),
      exec [Start example_uuid (example_request (Some ''abc123''))] init)"
  using unknown_run_not_found[of "''zzz''" "[Start example_uuid (example_request (Some ''abc123''))]" "[]"]
  by (simp add: example_start)

subsection \<open>Admission\<close>

text \<open>
  Claim C1, amended.  A start request that arrives while a run is active is rejected with
  the conflict error 409 whose detail names the active run id, and the state (the
  registry included) is left as it was.  A start request that arrives while no run is
  active is admitted: the response carries the assigned run id and the status
  \<open>training\<close>, the assigned run id becomes the active one, the registry holds under it a
  record with status \<open>training\<close> and empty metrics, and no other key of the registry
  changes.  The assigned run id is the one the caller supplied when that is a non-empty
  string; it is the first twelve characters of a fresh uuid when the caller supplied none
  or supplied the empty string.
\<close>

theorem start_training_admission:
  "(current_run s = Some cur \<longrightarrow>
      start_training u req s =
        (Inl (HTTPException 409 (''Training already in progress: '' @ cur)), s)) \<and>
   (current_run s = None \<longrightarrow>
      fst (start_training u req s) =
        Inr \<lparr>resp_run_id =
               (case run_id req of
                  None \<Rightarrow> take 12 u
                | Some r \<Rightarrow> if r = [] then take 12 u else r),
             resp_status = ''training''\<rparr> \<and>
      (\<exists>rid. fst (start_training u req s) = Inr \<lparr>resp_run_id = rid, resp_status = ''training''\<rparr> \<and>
         current_run (snd (start_training u req s)) = Some rid \<and>
         map_of (runs (snd (start_training u req s))) rid =
           Some \<lparr>status = ''training'', metrics = Some [], error = None\<rparr> \<and>
         (\<forall>k. k \<noteq> rid \<longrightarrow>
            map_of (runs (snd (start_training u req s))) k = map_of (runs s) k)))"
  by (simp add: start_training_def Let_def str_or_def update_conv' split: option.splits)

theorem start_training_admission_witness:
  "start_training example_uuid (example_request (Some ''run-b''))
     (snd (start_training example_uuid (example_request (Some ''abc123'')) init)) =
     (Inl (HTTPException 409 ''Training already in progress: abc123''),
      snd (start_training example_uuid (example_request (Some ''abc123'')) init)) \<and>
   fst (start_training example_uuid (example_request None) init) =
     Inr \<lparr>resp_run_id = ''0f8fad5b-d9c'', resp_status = ''training''\<rparr>"
  using start_training_admission[of
      "snd (start_training example_uuid (example_request (Some ''abc123'')) init)"
      "''abc123''" example_uuid "example_request (Some ''run-b'')"]
    start_training_admission[of init "''x''" example_uuid "example_request None"]
  by (simp add: example_start) (simp add: init_def example_request_def example_uuid_def)

text \<open>
  The claim as it was stated takes the caller's run id whenever one is given.  A request
  whose run id is the empty string is admitted under the generated id, and nothing is
  stored under the empty string.
\<close>

theorem empty_run_id_counterexample:
  "run_id (example_request (Some [])) = Some [] \<and>
   fst (start_training example_uuid (example_request (Some [])) init) =
     Inr \<lparr>resp_run_id = ''0f8fad5b-d9c'', resp_status = ''training''\<rparr> \<and>
   map_of (runs (snd (start_training example_uuid (example_request (Some [])) init))) [] = None \<and>
   map_of (runs (snd (start_training example_uuid (example_request (Some [])) init)))
     ''0f8fad5b-d9c'' = Some training_record"
  by (simp add: start_training_def init_def example_request_def example_uuid_def str_or_def
        training_record_def Let_def)

subsection \<open>Failure isolation\<close>

text \<open>
  Claim C2, amended.  When \<open>run_training\<close> raises an instance of \<open>Exception\<close>, the record of
  the run becomes \<open>failed\<close> with the text of the error, and nothing leaves the thread.
  When it returns, the record becomes \<open>done\<close> with the returned metrics.  When it raises a
  \<open>BaseException\<close> that is no \<open>Exception\<close>, the registry is left as it was.  On each of
  these paths the active slot is cleared, and a start request that comes next is
  admitted.
\<close>

theorem train_failure_isolation:
  "map_of (runs (train rid (Inl (Exception e)) s)) rid =
     Some \<lparr>status = ''failed'', metrics = None, error = Some e\<rparr> \<and>
   train_escapes (Inl (Exception e)) = None \<and>
   map_of (runs (train rid (Inr m) s)) rid =
     Some \<lparr>status = ''done'', metrics = Some m, error = None\<rparr> \<and>
   runs (train rid (Inl (BaseException e)) s) = runs s \<and>
   current_run (train rid out s) = None \<and>
   fst (start_training u req (train rid out s)) =
     Inr \<lparr>resp_run_id = str_or (run_id req) (take 12 u), resp_status = ''training''\<rparr>"
proof -
  have c: "current_run (train rid out s) = None"
    by (cases out) (simp_all add: train_def train_finally_def)
  then have "fst (start_training u req (train rid out s)) =
     Inr \<lparr>resp_run_id = str_or (run_id req) (take 12 u), resp_status = ''training''\<rparr>"
    by (simp add: start_training_def Let_def)
  then show ?thesis using c
    by (simp add: runs_train update_conv' train_escapes_def)
qed

text \<open>
  The claim as it was stated has the record become \<open>failed\<close> for any exception.  When
  \<open>run_training\<close> raises \<open>SystemExit\<close>, the record of the run keeps the status \<open>training\<close>.
\<close>

theorem base_exception_counterexample:
  "map_of (runs (train ''abc123'' (Inl (BaseException ''SystemExit''))
      (snd (start_training example_uuid (example_request (Some ''abc123'')) init)))) ''abc123'' =
     Some \<lparr>status = ''training'', metrics = Some [], error = None\<rparr>"
  by (simp add: example_start runs_train training_record_def)

subsection \<open>Records stay\<close>

lemma map_of_thread_exit:
  assumes inv: "sidecar_inv s" and i: "map_of (runs s) rid = Some info" and t: "terminal info"
  shows "map_of (runs (step (ThreadExit r out) s)) rid = Some info"
proof (cases "r \<in> set (threads s)")
  case False
  then show ?thesis using i by simp
next
  case True
  then obtain j where j: "map_of (runs s) r = Some j" "status j = ''training''"
    using thread_is_current[OF inv] by blast
  have "r \<noteq> rid" using i j t by (auto simp: terminal_def)
  then show ?thesis using True i
    by (simp add: runs_train update_conv' split: sum.splits exn.splits)
qed

lemma keys_step:
  assumes "sidecar_inv s"
  shows "take (length (runs s)) (map fst (runs (step e s))) = map fst (runs s)"
proof (cases e)
  case (Start u req)
  then show ?thesis by (simp add: runs_start update_keys split: option.splits)
next
  case (Status r)
  then show ?thesis by simp
next
  case (ThreadExit r out)
  then show ?thesis using keys_thread_exit[OF assms, of r out] by simp
qed

lemma stays_step:
  assumes "sidecar_inv s" and "map_of (runs s) rid = Some info"
  shows "\<exists>info'. map_of (runs (step e s)) rid = Some info'"
proof -
  have "rid \<in> set (map fst (runs s))" using assms(2) map_of_SomeD by force
  then have "rid \<in> set (take (length (runs s)) (map fst (runs (step e s))))"
    using keys_step[OF assms(1), of e] by simp
  then have "rid \<in> set (map fst (runs (step e s)))" by (meson in_set_takeD)
  then have "map_of (runs (step e s)) rid \<noteq> None" by (simp add: map_of_eq_None_iff)
  then show ?thesis by blast
qed

text \<open>
  Claim C8, amended.  In every state that the process reaches, a record of the registry
  is still found under its run id after any further event, the keys that the registry
  had stay where they were, and a record with status \<open>done\<close> or \<open>failed\<close> is changed by
  no event but the admission of a new start request under the same run id, be that id
  supplied by the caller or generated.  A status query writes nothing by itself: the
  state it leaves is the one that the events of the other threads have made.
\<close>

theorem registry_records_persist:
  "(map_of (runs (exec es init)) rid = Some info \<longrightarrow>
      (\<exists>info'. map_of (runs (step e (exec es init))) rid = Some info') \<and>
      take (length (runs (exec es init))) (map fst (runs (step e (exec es init)))) =
        map fst (runs (exec es init)) \<and>
      (terminal info \<and> \<not> admits e (exec es init) rid \<longrightarrow>
         map_of (runs (step e (exec es init))) rid = Some info)) \<and>
   (\<exists>j. snd (get_status r others (exec es init)) =
          exec (concat (take j others)) (exec es init))"
proof -
  let ?s = "exec es init"
  have inv: "sidecar_inv ?s" using inv_init by (rule inv_exec)
  have a: "\<exists>info'. map_of (runs (step e ?s)) rid = Some info'"
    if "map_of (runs ?s) rid = Some info"
    using inv that by (rule stays_step)
  have b: "take (length (runs ?s)) (map fst (runs (step e ?s))) = map fst (runs ?s)"
    using inv by (rule keys_step)
  have c: "map_of (runs (step e ?s)) rid = Some info"
    if i: "map_of (runs ?s) rid = Some info" and t: "terminal info" and n: "\<not> admits e ?s rid"
  proof (cases e)
    case (Start u req)
    then show ?thesis using n i
      by (auto simp: runs_start update_conv' split: option.splits)
  next
    case (Status r)
    then show ?thesis using i by simp
  next
    case (ThreadExit r out)
    then show ?thesis using map_of_thread_exit[OF inv i t] by simp
  qed
  show ?thesis using a b c get_status_state[of r others ?s] by blast
qed

theorem registry_records_persist_witness:
  "map_of (runs (step (Start example_uuid (example_request (Some ''run-b'')))
      (exec example_trace init))) ''abc123'' = Some done_record \<and>
   map fst (runs (step (Start example_uuid (example_request (Some ''run-b'')))
      (exec example_trace init))) = [''abc123'', ''run-b'']"
  using registry_records_persist[of example_trace "''abc123''" done_record
      "Start example_uuid (example_request (Some ''run-b''))"]
  by (simp add: example_done done_record_def terminal_def example_request_def str_or_def
        runs_start)

text \<open>
  The claim as it was stated has no operation change a record that is \<open>done\<close> or
  \<open>failed\<close>.  A start request that brings the run id of a finished run again is admitted
  and puts a fresh \<open>training\<close> record in its place.
\<close>

theorem restart_counterexample:
  "map_of (runs (exec example_trace init)) ''abc123'' = Some done_record \<and>
   terminal done_record \<and>
   map_of (runs (step (Start example_uuid (example_request (Some ''abc123'')))
      (exec example_trace init))) ''abc123'' = Some training_record \<and>
   training_record \<noteq> done_record"
  by (simp add: example_done done_record_def terminal_def example_request_def str_or_def
        runs_start training_record_def)

subsection \<open>The status query and the plain lookup\<close>




text \<open>
  Claim C3.  The progress reporter writes its snapshot to the metrics file only.  After
  the event with step 1 of 10 the file holds progress \<open>1/10\<close>, and the status query for
  the running job still returns the empty metrics.
\<close>

theorem status_misses_progress:
  "(case on_log exact_platform example_callback 105 \<lparr>global_step = 1, max_steps = 10\<rparr>
           (Some [(''loss'', PFloat (4 / 5))]) Map.empty of
      Inl e \<Rightarrow> None
    | Inr fs \<Rightarrow> read_progress fs ''out/metrics.json'') = Some (PFloat (1 / 10)) \<and>
   fst (get_status ''abc123'' []
          (snd (start_training example_uuid (example_request (Some ''abc123'')) init))) =
     Inr \<lparr>status = ''training'', metrics = Some [], error = None\<rparr>"
  by (simp add: on_log_def progress_of_def truediv_def round4_def write_json_def Let_def
        exact_platform_def example_callback_def read_progress_def example_start
        get_status_alone registry_lookup_def training_record_def)

section \<open>Properties of the progress reporter\<close>

lemma truediv_no_zero: "0 < b \<Longrightarrow> truediv py a b \<noteq> Inl ZeroDivisionError"
  by (simp add: truediv_def split: option.splits)

lemma progress_of_eq:
  "progress_of py st =
     (if 0 < max_steps st
      then (case fdiv py (global_step st) (max_steps st) of
              None \<Rightarrow> Inl OverflowError
            | Some q \<Rightarrow> Inr (PFloat q))
      else Inr (PInt 0))"
  by (simp add: progress_of_def truediv_def split: option.splits)

lemma progress_of_no_zero: "progress_of py st \<noteq> Inl ZeroDivisionError"
  by (simp add: progress_of_eq split: option.splits)

lemma on_log_no_zero: "on_log py self now st logs fs \<noteq> Inl ZeroDivisionError"
  by (cases logs)
     (auto simp: on_log_def progress_of_eq write_json_def Let_def split: option.splits)

lemma on_log_writes:
  assumes "on_log py self now st (Some lg) fs = Inr fs'"
  shows "\<exists>v. read_progress fs' (metrics_path self) = Some v \<and>
             stored_progress py st = Some (num_of v)"
proof (cases "0 < max_steps st")
  case False
  then have "read_progress fs' (metrics_path self) = Some (PInt 0)"
    using assms
    by (auto simp: on_log_def progress_of_eq write_json_def round4_def read_progress_def Let_def
             split: if_splits)
  then show ?thesis using False by (simp add: stored_progress_def num_of_def)
next
  case True
  then obtain q where q: "fdiv py (global_step st) (max_steps st) = Some q"
    using assms by (cases "fdiv py (global_step st) (max_steps st)")
      (auto simp: on_log_def progress_of_eq Let_def)
  have "read_progress fs' (metrics_path self) = Some (PFloat (fround4 py q))"
    using assms True q
    by (auto simp: on_log_def progress_of_eq write_json_def round4_def read_progress_def Let_def
             split: if_splits)
  then show ?thesis using True q by (simp add: stored_progress_def num_of_def)
qed

lemma progress_log_from_events:
  "p \<in> set (progress_log py self evs fs) \<Longrightarrow>
   \<exists>ev \<in> set evs. stored_progress py (fst (snd ev)) = Some p"
proof (induction evs arbitrary: fs)
  case Nil
  then show ?case by simp
next
  case (Cons ev evs)
  obtain now st logs where ev: "ev = (now, st, logs)" by (cases ev) auto
  show ?case
  proof (cases "on_log py self now st logs fs")
    case (Inl e)
    then show ?thesis using Cons.prems ev by simp
  next
    case (Inr fs')
    show ?thesis
    proof (cases "p \<in> set (progress_log py self evs fs')")
      case True
      then show ?thesis using Cons.IH by auto
    next
      case False
      then have h: "p \<in> set (case logs of
             None \<Rightarrow> []
           | Some lg \<Rightarrow>
               (case read_progress fs' (metrics_path self) of None \<Rightarrow> [] | Some v \<Rightarrow> [num_of v]))"
        using Cons.prems ev Inr by simp
      then obtain lg where lg: "logs = Some lg" by (cases logs) auto
      then obtain v where v: "read_progress fs' (metrics_path self) = Some v" "p = num_of v"
        using h by (cases "read_progress fs' (metrics_path self)") auto
      then have "stored_progress py st = Some p"
        using on_log_writes[of py self now st lg fs fs'] Inr lg by auto
      then show ?thesis using ev by auto
    qed
  qed
qed

lemma stored_progress_mono:
  assumes "monotone_floats py" and "max_steps a = max_steps b"
    and "global_step a \<le> global_step b"
    and "stored_progress py a = Some x" and "stored_progress py b = Some y"
  shows "x \<le> y"
proof (cases "0 < max_steps a")
  case False
  then show ?thesis using assms by (simp add: stored_progress_def)
next
  case True
  obtain q where q: "fdiv py (global_step a) (max_steps a) = Some q" "x = fround4 py q"
    using assms(4) True by (auto simp: stored_progress_def split: option.splits)
  obtain r where r: "fdiv py (global_step b) (max_steps a) = Some r" "y = fround4 py r"
    using assms(2,5) True by (auto simp: stored_progress_def split: option.splits)
  have "q \<le> r" using assms(1,3) True q(1) r(1) unfolding monotone_floats_def by blast
  then show ?thesis using assms(1) q(2) r(2) unfolding monotone_floats_def by blast
qed

lemma progress_log_sorted:
  assumes "monotone_floats py"
  shows "sorted (map (\<lambda>ev. global_step (fst (snd ev))) evs) \<Longrightarrow>
         \<forall>ev \<in> set evs. max_steps (fst (snd ev)) = n \<Longrightarrow>
         sorted (progress_log py self evs fs)"
proof (induction evs arbitrary: fs)
  case Nil
  then show ?case by simp
next
  case (Cons ev evs)
  obtain now st logs where ev: "ev = (now, st, logs)" by (cases ev) auto
  have steps: "\<forall>e \<in> set evs. global_step st \<le> global_step (fst (snd e))"
    using Cons.prems(1) ev by auto
  have tail: "sorted (map (\<lambda>ev. global_step (fst (snd ev))) evs)"
    "\<forall>ev \<in> set evs. max_steps (fst (snd ev)) = n"
    using Cons.prems by auto
  show ?case
  proof (cases "on_log py self now st logs fs")
    case (Inl e)
    then show ?thesis using ev by simp
  next
    case (Inr fs')
    have rest: "sorted (progress_log py self evs fs')"
      using Cons.IH[OF tail] .
    show ?thesis
    proof (cases logs)
      case None
      then show ?thesis using ev Inr rest by simp
    next
      case (Some lg)
      obtain v where v: "read_progress fs' (metrics_path self) = Some v"
          "stored_progress py st = Some (num_of v)"
        using on_log_writes[of py self now st lg fs fs'] Inr Some by auto
      have "num_of v \<le> p" if mem: "p \<in> set (progress_log py self evs fs')" for p
      proof -
        obtain e where e: "e \<in> set evs" "stored_progress py (fst (snd e)) = Some p"
          using progress_log_from_events[OF mem] by blast
        have "max_steps st = max_steps (fst (snd e))"
          using Cons.prems(2) e(1) ev by simp
        then show ?thesis
          using stored_progress_mono[OF assms _ _ v(2) e(2)] steps e(1) by blast
      qed
      then show ?thesis using ev Inr Some v(1) rest by simp
    qed
  qed
qed

lemma run_training_progress:
  "run_training c dataset base out_dir fs = (Inr m, fs') \<Longrightarrow>
   map_of m ''progress'' = Some (PFloat 1) \<and>
   read_progress fs' (path_join out_dir ''metrics.json'') = Some (PFloat 1)"
  unfolding run_training_def Let_def
  by (auto simp: write_json_def read_progress_def path_join_def
           split: option.splits sum.splits prod.splits if_splits)

text \<open>
  Claim C5, amended.  The progress of an event is the float quotient of the current step
  by \<open>max_steps\<close> when \<open>max_steps\<close> is positive, and the number 0 when \<open>max_steps\<close> is zero or
  negative.  The division is reached with a positive divisor only, so neither the
  computation of the progress nor \<open>on_log\<close> as a whole ever raises \<open>ZeroDivisionError\<close>.
\<close>

theorem progress_never_divides_by_zero:
  "(if 0 < max_steps st
    then progress_of py st =
           (case truediv py (global_step st) (max_steps st) of
              Inl e \<Rightarrow> Inl e
            | Inr q \<Rightarrow> Inr (PFloat q)) \<and>
         truediv py (global_step st) (max_steps st) \<noteq> Inl ZeroDivisionError
    else progress_of py st = Inr (PInt 0)) \<and>
   progress_of py st \<noteq> Inl ZeroDivisionError \<and>
   on_log py self now st logs fs \<noteq> Inl ZeroDivisionError"
  using progress_of_no_zero[of py st] on_log_no_zero[of py self now st logs fs]
    truediv_no_zero[of "max_steps st" py "global_step st"]
  by (simp add: progress_of_def)

theorem progress_never_divides_by_zero_witness:
  "progress_of exact_platform \<lparr>global_step = 1, max_steps = 8\<rparr> = Inr (PFloat (1 / 8)) \<and>
   progress_of exact_platform \<lparr>global_step = 7, max_steps = 0\<rparr> = Inr (PInt 0)"
  using progress_never_divides_by_zero[of "\<lparr>global_step = 1, max_steps = 8\<rparr>" exact_platform]
    progress_never_divides_by_zero[of "\<lparr>global_step = 7, max_steps = 0\<rparr>" exact_platform]
  by (simp add: truediv_def exact_platform_def)

text \<open>
  The claim as it was stated has the progress be the quotient unless \<open>max_steps\<close> is
  zero.  For step 1 and \<open>max_steps = -1\<close> the quotient is \<open>-1\<close>, and the progress is 0.
\<close>

theorem negative_max_steps_counterexample:
  "max_steps \<lparr>global_step = 1, max_steps = - 1\<rparr> \<noteq> 0 \<and>
   progress_of exact_platform \<lparr>global_step = 1, max_steps = - 1\<rparr> = Inr (PInt 0) \<and>
   truediv exact_platform 1 (- 1) = Inr (- 1) \<and>
   num_of (PInt 0) \<noteq> - 1"
  by (simp add: progress_of_def truediv_def num_of_def exact_platform_def)

text \<open>
  Claim C4, amended.  When over the progress events of a run the step counter never
  decreases and \<open>max_steps\<close> stays the same, the progress values that the events leave in
  the metrics file never decrease; this rests on the order that float division and
  \<open>round\<close> keep.  When \<open>run_training\<close> returns, the metrics it returns and the metrics file
  have progress exactly 1, and these are the metrics stored with the run when its record
  in the registry becomes \<open>done\<close>.
\<close>

theorem progress_monotone:
  "(monotone_floats py \<and>
    sorted (map (\<lambda>ev. global_step (fst (snd ev))) evs) \<and>
    (\<forall>ev \<in> set evs. max_steps (fst (snd ev)) = n) \<longrightarrow>
      sorted (progress_log py self evs fs)) \<and>
   (\<forall>m fs'. run_training c dataset base out_dir fs = (Inr m, fs') \<longrightarrow>
      map_of m ''progress'' = Some (PFloat 1) \<and>
      read_progress fs' (path_join out_dir ''metrics.json'') = Some (PFloat 1) \<and>
      map_of (runs (train rid (Inr m) s)) rid =
        Some \<lparr>status = ''done'', metrics = Some m, error = None\<rparr>)"
proof -
  have a: "sorted (progress_log py self evs fs)"
    if "monotone_floats py" and "sorted (map (\<lambda>ev. global_step (fst (snd ev))) evs)"
      and "\<forall>ev \<in> set evs. max_steps (fst (snd ev)) = n"
    using progress_log_sorted[OF that] .
  have b: "map_of (runs (train rid (Inr m) s)) rid =
      Some \<lparr>status = ''done'', metrics = Some m, error = None\<rparr>" for m
    by (simp add: train_def train_body_def train_finally_def update_conv')
  show ?thesis using a b run_training_progress by blast
qed

lemma exact_monotone: "monotone_floats exact_platform"
  by (simp add: monotone_floats_def exact_platform_def divide_right_mono)

lemma steady_log:
  "progress_log exact_platform example_callback steady_events Map.empty = [1 / 8, 3 / 8]"
  by (simp add: steady_events_def on_log_def progress_of_eq write_json_def round4_def
        read_progress_def num_of_def exact_platform_def example_callback_def Let_def)

lemma example_log:
  "progress_log exact_platform example_callback example_events Map.empty = [1 / 2, 1 / 4]"
  by (simp add: example_events_def on_log_def progress_of_eq write_json_def round4_def
        read_progress_def num_of_def exact_platform_def example_callback_def Let_def)

lemma example_paths:
  "path_join ''out'' ''metrics.json'' = ''out/metrics.json''"
  "path_join ''out'' ''status.json'' = ''out/status.json''"
  by (simp_all add: path_join_def)

lemma steady_callbacks:
  "run_callbacks exact_platform
     \<lparr>metrics_path = ''out/metrics.json'', status_path = ''out/status.json'', start_time = 100\<rparr>
     steady_events fs =
     (None, fs(''out/metrics.json'' \<mapsto> PDict
        [(''train_loss'', PFloat (1 / 2)), (''eval_loss'', PInt 0), (''duration'', PStr ''5.0s''),
         (''progress'', PFloat (3 / 8)), (''step'', PInt 3), (''max_steps'', PInt 8)]))"
  by (simp add: steady_events_def on_log_def progress_of_eq write_json_def round4_def
        dict_get_def exact_platform_def Let_def)

lemma example_run:
  "fst (run_training example_collaborators ''data/train.jsonl'' ''models/base'' ''out'' Map.empty) =
     Inr final_metrics"
  by (simp add: run_training_def example_collaborators_def py_makedirs_def example_paths
        write_json_def load_dataset_from_jsonl_def steady_callbacks on_train_end_def
        write_status_def final_metrics_def Let_def)
     (simp add: exact_platform_def)

lemma failing_run:
  "fst (run_training failing_save ''data/train.jsonl'' ''models/base'' ''out'' Map.empty) =
     Inl (Exception ''disk full'')"
  "read_status (snd (run_training failing_save ''data/train.jsonl'' ''models/base'' ''out'' Map.empty))
     ''out/status.json'' = Some (PStr ''done'')"
  "read_progress (snd (run_training failing_save ''data/train.jsonl'' ''models/base'' ''out'' Map.empty))
     ''out/metrics.json'' = Some (PFloat (3 / 8))"
  by (simp_all add: run_training_def failing_save_def example_collaborators_def py_makedirs_def
        example_paths write_json_def load_dataset_from_jsonl_def steady_callbacks on_train_end_def
        write_status_def read_status_def read_progress_def Let_def)
     (simp_all add: exact_platform_def)

theorem progress_monotone_witness:
  "sorted (progress_log exact_platform example_callback steady_events Map.empty) \<and>
   progress_log exact_platform example_callback steady_events Map.empty = [1 / 8, 3 / 8] \<and>
   map_of final_metrics ''progress'' = Some (PFloat 1) \<and>
   map_of (runs (train ''abc123'' (Inr final_metrics) init)) ''abc123'' =
     Some \<lparr>status = ''done'', metrics = Some final_metrics, error = None\<rparr>"
proof -
  have a: "sorted (map (\<lambda>ev. global_step (fst (snd ev))) steady_events)"
    by (simp add: steady_events_def)
  have b: "\<forall>ev \<in> set steady_events. max_steps (fst (snd ev)) = 8"
    by (simp add: steady_events_def)
  have c: "run_training example_collaborators ''data/train.jsonl'' ''models/base'' ''out'' Map.empty =
      (Inr final_metrics,
       snd (run_training example_collaborators ''data/train.jsonl'' ''models/base'' ''out'' Map.empty))"
    using example_run by (metis prod.collapse)
  show ?thesis
    using progress_monotone[of exact_platform steady_events 8 example_callback Map.empty
        example_collaborators "''data/train.jsonl''" "''models/base''" "''out''" "''abc123''" init]
      exact_monotone a b c steady_log
    by simp
qed

text \<open>
  The claim as it was stated asks only that the step counter never decreases, and has
  the progress be 1 when the status becomes \<open>done\<close>.  Two events at step 4, the first
  with \<open>max_steps = 8\<close> and the second with \<open>max_steps = 16\<close>, leave the progress values
  \<open>1/2\<close> and then \<open>1/4\<close>.  And when the training has come to its end after an event at
  step 3 of 8 and saving the adapter fails, the status file says \<open>done\<close> while the
  metrics file has progress \<open>3/8\<close>.
\<close>

theorem changing_max_steps_counterexample:
  "sorted (map (\<lambda>ev. global_step (fst (snd ev))) example_events) \<and>
   progress_log exact_platform example_callback example_events Map.empty = [1 / 2, 1 / 4] \<and>
   \<not> sorted (progress_log exact_platform example_callback example_events Map.empty) \<and>
   fst (run_training failing_save ''data/train.jsonl'' ''models/base'' ''out'' Map.empty) =
     Inl (Exception ''disk full'') \<and>
   read_status (snd (run_training failing_save ''data/train.jsonl'' ''models/base'' ''out'' Map.empty))
     ''out/status.json'' = Some (PStr ''done'') \<and>
   read_progress (snd (run_training failing_save ''data/train.jsonl'' ''models/base'' ''out'' Map.empty))
     ''out/metrics.json'' = Some (PFloat (3 / 8))"
proof -
  have s: "sorted (map (\<lambda>ev. global_step (fst (snd ev))) example_events)"
    by (simp add: example_events_def)
  have n: "\<not> sorted [(1::rat) / 2, 1 / 4]" by code_simp
  show ?thesis using s n failing_run by (simp only: example_log simp_thms)
qed

section \<open>Properties of the conversion\<close>













section \<open>Properties of the dataset transform\<close>

lemma add_msg_parts:
  "msg_parts msg = Some (role, content) \<Longrightarrow>
   add_msg ts msg acc = Inr (acc @ segment ts role content)"
  by (cases msg)
     (auto simp: msg_parts_def add_msg_def segment_def split: option.splits)

lemma add_msgs_parts:
  "list_all (\<lambda>m. msg_parts m \<noteq> None) msgs \<Longrightarrow>
   add_msgs ts msgs acc =
     Inr (acc @ concat (map (\<lambda>m. case msg_parts m of
                                     None \<Rightarrow> []
                                   | Some (role, content) \<Rightarrow> segment ts role content) msgs))"
proof (induction msgs arbitrary: acc)
  case Nil
  then show ?case by simp
next
  case (Cons m msgs)
  then obtain role content where p: "msg_parts m = Some (role, content)" by auto
  show ?case using Cons p by (simp add: add_msg_parts)
qed

lemma entry_text_well_formed:
  assumes "well_formed_line dec line"
  shows "\<exists>entry. dec line = Some entry \<and> entry_text ts entry = Inr (line_text dec ts line)"
proof -
  obtain entry where e: "dec line = Some entry"
    using assms by (auto simp: well_formed_line_def split: option.splits)
  obtain msgs where m: "entry_msgs entry = Some msgs"
    using assms e by (auto simp: well_formed_line_def split: option.splits)
  have a: "list_all (\<lambda>m. msg_parts m \<noteq> None) msgs"
    using assms e m by (simp add: well_formed_line_def)
  obtain kvs where k: "entry = PDict kvs" "map_of kvs ''messages'' = Some (PList msgs)"
    using m by (auto simp: entry_msgs_def split: pyval.splits option.splits)
  have "entry_text ts entry = Inr (line_text dec ts line)"
    using k e m add_msgs_parts[OF a, of ts "[]"]
    by (simp add: entry_text_def line_text_def)
  then show ?thesis using e by blast
qed

lemma load_lines_well_formed:
  "list_all (well_formed_line dec) lines \<Longrightarrow>
   load_lines dec ts lines samples =
     Inr (samples @ map (\<lambda>l. [(''text'', PStr (line_text dec ts l))]) lines)"
proof (induction lines arbitrary: samples)
  case Nil
  then show ?case by simp
next
  case (Cons l lines)
  then obtain entry where e: "dec l = Some entry"
      "entry_text ts entry = Inr (line_text dec ts l)"
    using entry_text_well_formed[of dec l ts] by auto
  show ?case using Cons e by simp
qed

lemma segment_cases:
  "segment ts (PStr ''system'') c = ''<|system|>\<newline>'' @ fmt_content ts c @ ''</s>\<newline>''"
  "segment ts (PStr ''user'') c = ''<|user|>\<newline>'' @ fmt_content ts c @ ''</s>\<newline>''"
  "segment ts (PStr ''assistant'') c =
     ''<|assistant|>\<newline>'' @ fmt_content ts c @ ''</s>\<newline>''"
  by (simp_all add: segment_def)

text \<open>
  Claim C10, amended.  When the file can be read and every line of it decodes to a dict
  whose \<open>messages\<close> is a list of dicts that each have the keys \<open>role\<close> and \<open>content\<close>, the
  transform gives exactly one sample per line, in the order of the lines, and the text of
  a sample is the concatenation, in the order of the messages, of one segment per
  message: the role tag, a line end, the content and \<open></s>\<close> with a line end for a
  message whose role is \<open>system\<close>, \<open>user\<close> or \<open>assistant\<close>, and nothing for a message of
  any other role.  So a line whose messages all have other roles gives a sample with
  empty text.  A content that is a string is put in as it is.
\<close>

theorem dataset_transform:
  assumes "rf path = Inr lines"
    and "list_all (well_formed_line dec) lines"
  shows "load_dataset_from_jsonl rf dec ts path =
           Inr (map (\<lambda>l. [(''text'', PStr (line_text dec ts l))]) lines) \<and>
         segment ts (PStr ''system'') c =
           ''<|system|>\<newline>'' @ fmt_content ts c @ ''</s>\<newline>'' \<and>
         segment ts (PStr ''user'') c =
           ''<|user|>\<newline>'' @ fmt_content ts c @ ''</s>\<newline>'' \<and>
         segment ts (PStr ''assistant'') c =
           ''<|assistant|>\<newline>'' @ fmt_content ts c @ ''</s>\<newline>'' \<and>
         (role \<noteq> PStr ''system'' \<and> role \<noteq> PStr ''user'' \<and> role \<noteq> PStr ''assistant'' \<longrightarrow>
            segment ts role c = []) \<and>
         fmt_content ts (PStr str) = str"
  using assms load_lines_well_formed[of dec lines ts "[]"]
  by (simp add: load_dataset_from_jsonl_def segment_cases fmt_content_def) (simp add: segment_def)

lemma example_lines_distinct:
  "line_tool \<noteq> line_chat" "line_bare \<noteq> line_chat" "line_bare \<noteq> line_tool"
  by code_simp+

lemma example_well_formed:
  "list_all (well_formed_line example_decode) [line_chat, line_tool]"
  by (simp add: well_formed_line_def example_decode_def example_lines_distinct
        entry_msgs_def msg_parts_def)

lemma example_texts:
  "line_text example_decode example_to_str line_chat =
     ''<|system|>\<newline>Be brief.</s>\<newline><|user|>\<newline>Hi</s>\<newline>''"
  "line_text example_decode example_to_str line_tool = []"
  by (simp_all add: line_text_def example_decode_def example_lines_distinct
        entry_msgs_def msg_parts_def segment_def fmt_content_def)

theorem dataset_transform_witness:
  "load_dataset_from_jsonl (\<lambda>p. Inr [line_chat, line_tool]) example_decode example_to_str
     ''data/train.jsonl'' =
     Inr [[(''text'', PStr ''<|system|>\<newline>Be brief.</s>\<newline><|user|>\<newline>Hi</s>\<newline>'')],
          [(''text'', PStr [])]] \<and>
   segment example_to_str (PStr ''tool'') (PStr ''42'') = []"
  using dataset_transform[of "\<lambda>p. Inr [line_chat, line_tool]" "''data/train.jsonl''"
      "[line_chat, line_tool]" example_decode example_to_str "PStr ''42''" "PStr ''tool''"]
    example_well_formed
  by (simp add: example_texts)

text \<open>
  The claim as it was stated has a message of another role skipped without an error.
  The transform reads the content of every message before it looks at the role: a line
  whose only message has the role \<open>tool\<close> and no content raises \<open>KeyError\<close>, and the
  transform gives no sample at all.
\<close>

theorem missing_content_counterexample:
  "load_dataset_from_jsonl (\<lambda>p. Inr [line_bare]) example_decode example_to_str ''data/train.jsonl'' =
     Inl (KeyError ''content'')"
  by (simp add: load_dataset_from_jsonl_def example_decode_def
        example_lines_distinct entry_text_def add_msg_def)

end
